theory Spec2Isabelle
  imports Main "HOL-Library.Char_ord"
begin

section \<open>Strings, white space and the regular expressions of the input guard\<close>

text \<open>
  A JavaScript string is modelled as a \<^typ>\<open>string\<close>: each \<^typ>\<open>char\<close> is one code unit
  in the range 0 to 255.  \<open>String.prototype.trim\<close> removes white space and line
  terminators from both ends; in that range they are TAB, LF, VT, FF, CR, SP and NBSP.
\<close>

definition isWhiteSpace :: "char \<Rightarrow> bool" where
  "isWhiteSpace c = (of_char c \<in> {9, 10, 11, 12, 13, 32, 160 :: nat})"

definition trim :: "string \<Rightarrow> string" where
  "trim s = rev (dropWhile isWhiteSpace (rev (dropWhile isWhiteSpace s)))"

text \<open>\<open>String.prototype.startsWith\<close>.\<close>

fun startsWith :: "string \<Rightarrow> string \<Rightarrow> bool" where
  "startsWith s [] = True"
| "startsWith [] (p # ps) = False"
| "startsWith (c # cs) (p # ps) = (c = p \<and> startsWith cs ps)"

text \<open>
  The three patterns of \<open>sanitizeInput\<close> carry the flags \<open>g\<close> and \<open>i\<close> and use literal
  characters, the negated classes \<open>[^<]\<close> and \<open>[^"]\<close>, the class \<open>\w\<close>, the greedy
  quantifiers \<open>*\<close> and \<open>+\<close>, a negative lookahead and the assertion \<open>\b\<close>.  The syntax
  tree below has exactly these constructs.

  Under the flag \<open>i\<close> (without \<open>u\<close>) two code units match when their canonical forms
  agree, and the canonical form is the upper-case code unit unless that would map a
  code unit of 128 or more below 128.  All literals of the three patterns are ASCII, so
  only the ASCII letters are folded: a code unit of 128 or more never matches them.
\<close>

definition canonicalize :: "char \<Rightarrow> char" where
  "canonicalize c =
     (if CHR ''a'' \<le> c \<and> c \<le> CHR ''z'' then char_of (of_char c - (32::nat)) else c)"

definition isWordChar :: "char \<Rightarrow> bool" where
  "isWordChar c =
     ((CHR ''a'' \<le> c \<and> c \<le> CHR ''z'') \<or> (CHR ''A'' \<le> c \<and> c \<le> CHR ''Z'')
      \<or> (CHR ''0'' \<le> c \<and> c \<le> CHR ''9'') \<or> c = CHR ''_'')"

datatype regex =
    Eps
  | Chr char
  | NotChr char
  | WordClass
  | Seq regex regex
  | Star regex
  | NotAhead regex
  | WordBoundary

text \<open>
  A position in the subject string is the code unit just before it (absent at the
  start) and the text that remains.  \<open>matches r p\<close> lists the positions at which a
  match of \<open>r\<close> starting at \<open>p\<close> can end, in the order in which the backtracking
  matcher of ECMAScript tries them: the head of the list is the match that \<open>exec\<close>
  reports.  A greedy star first tries one more iteration and then none; an iteration
  that consumes nothing is abandoned.
\<close>

type_synonym pos = "char option \<times> string"

fun isWordAt :: "char option \<Rightarrow> bool" where
  "isWordAt None = False"
| "isWordAt (Some c) = isWordChar c"

fun nextChar :: "string \<Rightarrow> char option" where
  "nextChar [] = None"
| "nextChar (c # cs) = Some c"

fun matches :: "regex \<Rightarrow> pos \<Rightarrow> pos list" where
  "matches Eps p = [p]"
| "matches (Chr a) (prev, []) = []"
| "matches (Chr a) (prev, c # cs) =
     (if canonicalize c = canonicalize a then [(Some c, cs)] else [])"
| "matches (NotChr a) (prev, []) = []"
| "matches (NotChr a) (prev, c # cs) =
     (if canonicalize c \<noteq> canonicalize a then [(Some c, cs)] else [])"
| "matches WordClass (prev, []) = []"
| "matches WordClass (prev, c # cs) = (if isWordChar c then [(Some c, cs)] else [])"
| "matches (Seq r1 r2) p = concat (map (matches r2) (matches r1 p))"
| "matches (Star r) p =
     concat (map (\<lambda>q. if length (snd q) < length (snd p) then matches (Star r) q else [])
                 (matches r p)) @ [p]"
| "matches (NotAhead r) p = (if matches r p = [] then [p] else [])"
| "matches WordBoundary (prev, rest) =
     (if isWordAt prev \<noteq> isWordAt (nextChar rest) then [(prev, rest)] else [])"

definition Plus :: "regex \<Rightarrow> regex" where
  "Plus r = Seq r (Star r)"

definition lit :: "string \<Rightarrow> regex" where
  "lit s = foldr (\<lambda>c r. Seq (Chr c) r) s Eps"

text \<open>
  \<open>text.replace(re, '')\<close> with a global pattern: the subject is scanned from the left;
  where the pattern matches, the matched text is dropped and the scan resumes behind
  it, and where it does not (or matches the empty string) the code unit is kept and
  the scan moves on by one.
\<close>

fun replaceAll :: "regex \<Rightarrow> pos \<Rightarrow> string" where
  "replaceAll r (prev, []) = []"
| "replaceAll r (prev, c # cs) =
     (case matches r (prev, c # cs) of
        [] \<Rightarrow> c # replaceAll r (Some c, cs)
      | q # _ \<Rightarrow>
          if length (snd q) < length (c # cs) then replaceAll r q
          else c # replaceAll r (Some c, cs))"

definition replace_g :: "regex \<Rightarrow> string \<Rightarrow> string" where
  "replace_g r s = replaceAll r (None, s)"

text \<open>\<open>/<script\b[^<]*(?:(?!<\/script>)<[^<]*)*<\/script>/gi\<close>\<close>

definition script_re :: regex where
  "script_re =
     Seq (lit ''<script'')
      (Seq WordBoundary
        (Seq (Star (NotChr CHR ''<''))
          (Seq (Star (Seq (NotAhead (lit ''</script>''))
                       (Seq (Chr CHR ''<'') (Star (NotChr CHR ''<'')))))
               (lit ''</script>''))))"

text \<open>\<open>/javascript:/gi\<close>\<close>

definition javascript_re :: regex where
  "javascript_re = lit ''javascript:''"

text \<open>\<open>/on\w+="[^"]*"/gi\<close>\<close>

definition handler_re :: regex where
  "handler_re =
     Seq (lit ''on'')
      (Seq (Plus WordClass)
        (Seq (lit [CHR ''='', CHR 0x22])
          (Seq (Star (NotChr (CHR 0x22))) (Chr (CHR 0x22)))))"

definition sanitizeInput :: "string \<Rightarrow> string" where
  "sanitizeInput text =
     trim (replace_g handler_re (replace_g javascript_re (replace_g script_re text)))"


section \<open>Messages, notices and the completion endpoint\<close>

text \<open>\<open>Number.prototype.toString\<close> on an integer: its decimal digits.\<close>

fun toDigits :: "nat \<Rightarrow> string" where
  "toDigits n =
     (if n < 10 then [''0123456789'' ! n]
      else toDigits (n div 10) @ [''0123456789'' ! (n mod 10)])"

declare toDigits.simps [simp del]

definition toString :: "int \<Rightarrow> string" where
  "toString i = (if i < 0 then CHR ''-'' # toDigits (nat (- i)) else toDigits (nat i))"

text \<open>
  \<open>interface Message\<close>.  A \<open>Date\<close> is its number of milliseconds, as \<open>Date.now()\<close>
  gives it.
\<close>

record message =
  id_msg :: string
  content :: string
  isUser :: bool
  timestamp :: int

text \<open>What the user is shown: \<open>alert(text)\<close> and \<open>toast({title, description, variant})\<close>.\<close>

datatype notice =
    Alert string
  | Toast (title: string) (description: string) (variant: string)

text \<open>
  A thrown value is an \<open>Error\<close> with its message, or something that is not an
  instance of \<open>Error\<close>.
\<close>

datatype js_throw = Error string | NonError

text \<open>
  The body of a completion response, as \<open>sendMessage\<close> reads it: \<open>Throws\<close> when
  \<open>response.json()\<close> rejects or \<open>data.choices[0]\<close> throws because \<open>data.choices\<close>
  cannot be indexed; otherwise the list \<open>data.choices\<close>, each choice with an optional
  \<open>message\<close>, each message with an optional \<open>content\<close>.
\<close>

datatype json_message = JsonMessage "string option"

datatype json_choice = JsonChoice "json_message option"

datatype body = Throws js_throw | Choices "json_choice list"

text \<open>
  How \<open>await fetch(...)\<close> ends: the promise rejects (a network error), or there
  is a response with a status and a body.  \<open>response.ok\<close> holds for the statuses 200
  to 299.
\<close>

datatype fetch_result = Rejected js_throw | Response nat body

definition ok :: "nat \<Rightarrow> bool" where
  "ok status = (200 \<le> status \<and> status \<le> 299)"

section \<open>The state of the chat screen\<close>

text \<open>
  The state of \<open>ChatInterface\<close> (\<open>messages\<close>, \<open>isLoading\<close>, \<open>apiKey\<close>,
  \<open>showApiKeySetup\<close>) and of the mounted \<open>SecureChatInput\<close> (\<open>input\<close>,
  \<open>lastMessageTime\<close>), together with what has been observed from outside: the
  notices shown and the message histories sent to the completion endpoint.  The
  controller is the version of \<open>ChatInterface\<close> that keeps the credential in its
  state and renders \<open>SecureChatInput\<close>.
\<close>

record app_state =
  messages :: "message list"
  isLoading :: bool
  apiKey :: "string option"
  showApiKeySetup :: bool
  input :: string
  lastMessageTime :: int
  notices :: "notice list"
  requests :: "(string \<times> string) list list"

definition MAX_MESSAGE_LENGTH :: nat where
  "MAX_MESSAGE_LENGTH = 4000"

definition RATE_LIMIT_DELAY :: int where
  "RATE_LIMIT_DELAY = 1000"

definition greeting :: "int \<Rightarrow> message" where
  "greeting t =
     \<lparr>id_msg = ''1'',
      content = ''Hello! I'm DeepSeek AI. How can I assist you today?'',
      isUser = False,
      timestamp = t\<rparr>"

text \<open>
  The initial values of the \<open>useState\<close> calls, followed by the effect that runs once
  after mounting; \<open>storedKey\<close> is what \<open>getStoredApiKey()\<close> returns.
\<close>

definition truthy :: "string option \<Rightarrow> bool" where
  "truthy v = (case v of None \<Rightarrow> False | Some s \<Rightarrow> s \<noteq> [])"

definition initialState :: "int \<Rightarrow> string option \<Rightarrow> app_state" where
  "initialState t storedKey =
     (let st = \<lparr>messages = [greeting t], isLoading = False, apiKey = None,
                 showApiKeySetup = False, input = [], lastMessageTime = 0,
                 notices = [], requests = []\<rparr>
      in if truthy storedKey then st\<lparr>apiKey := storedKey\<rparr> else st\<lparr>showApiKeySetup := True\<rparr>)"

definition handleNewChat :: "app_state \<Rightarrow> int \<Rightarrow> app_state" where
  "handleNewChat st t = st\<lparr>messages := [greeting t]\<rparr>"

definition handleApiKeySet :: "app_state \<Rightarrow> string \<Rightarrow> app_state" where
  "handleApiKeySet st newApiKey = st\<lparr>apiKey := Some newApiKey, showApiKeySetup := False\<rparr>"

definition handleManageApiKey :: "app_state \<Rightarrow> app_state" where
  "handleManageApiKey st = st\<lparr>showApiKeySetup := True\<rparr>"

text \<open>
  While \<open>showApiKeySetup\<close> holds, \<open>ChatInterface\<close> renders \<open>ApiKeySetup\<close> alone, so
  \<open>SecureChatInput\<close> is unmounted and its state is discarded; when it is mounted
  again, \<open>input\<close> and \<open>lastMessageTime\<close> start from their \<open>useState\<close> values.
\<close>

definition unmountInput :: "app_state \<Rightarrow> app_state" where
  "unmountInput st = st\<lparr>input := [], lastMessageTime := 0\<rparr>"


section \<open>The input guard: \<open>SecureChatInput\<close>\<close>

record validation =
  isValid :: bool
  error :: "string option"

text \<open>
  \<open>validateInput(text)\<close>; \<open>lastTime\<close> is the state \<open>lastMessageTime\<close> and \<open>now\<close> the
  value of \<open>Date.now()\<close> read inside the function.
\<close>

definition validateInput :: "string \<Rightarrow> int \<Rightarrow> int \<Rightarrow> validation" where
  "validateInput text lastTime now =
     (if trim text = [] then
        \<lparr>isValid = False, error = Some ''Message cannot be empty''\<rparr>
      else if length text > MAX_MESSAGE_LENGTH then
        \<lparr>isValid = False,
         error = Some (''Message too long (max '' @ toString (int MAX_MESSAGE_LENGTH)
                        @ '' characters)'')\<rparr>
      else if now - lastTime < RATE_LIMIT_DELAY then
        \<lparr>isValid = False, error = Some ''Please wait before sending another message''\<rparr>
      else \<lparr>isValid = True, error = None\<rparr>)"

definition handleInputChange :: "app_state \<Rightarrow> string \<Rightarrow> app_state" where
  "handleInputChange st v = (if length v \<le> MAX_MESSAGE_LENGTH then st\<lparr>input := v\<rparr> else st)"

text \<open>
  \<open>handleSubmit\<close> has two callers: \<open>handleKeyDown\<close> of the textarea (Enter without
  Shift) and \<open>onSubmit\<close> of the form, reached through the send button.  These are
  the \<open>disabled\<close> attributes of the two controls.
\<close>

definition textareaDisabled :: "app_state \<Rightarrow> bool" where
  "textareaDisabled st = isLoading st"

definition buttonDisabled :: "app_state \<Rightarrow> bool" where
  "buttonDisabled st =
     (trim (input st) = [] \<or> isLoading st \<or> length (input st) > MAX_MESSAGE_LENGTH)"

section \<open>The conversation controller: \<open>sendMessage\<close>\<close>

text \<open>
  \<open>sendMessage\<close> is asynchronous.  \<open>sendMessage_request\<close> is the part that runs
  before \<open>await fetch(...)\<close>: the credential check, the new user message, the busy
  flag and the request with the role-tagged history.  \<open>t_id\<close> and \<open>t_ts\<close> are the
  values of \<open>Date.now()\<close> and \<open>new Date()\<close>.
\<close>

definition role :: "message \<Rightarrow> string \<times> string" where
  "role msg = (if isUser msg then ''user'' else ''assistant'', content msg)"

definition sendMessage_request :: "app_state \<Rightarrow> string \<Rightarrow> int \<Rightarrow> int \<Rightarrow> app_state" where
  "sendMessage_request st text t_id t_ts =
     (if \<not> truthy (apiKey st) then
        st\<lparr>notices := notices st @
              [Toast ''API Key Required'' ''Please set your API key to send messages.''
                 ''destructive'']\<rparr>
      else
        let userMessage = \<lparr>id_msg = toString t_id, content = text, isUser = True,
                            timestamp = t_ts\<rparr>
        in st\<lparr>messages := messages st @ [userMessage],
              isLoading := True,
              requests := requests st @ [map role (messages st @ [userMessage])]\<rparr>)"

text \<open>
  The rest of the \<open>try\<close> block, once \<open>fetch\<close> has settled: either a value is
  thrown (\<open>Inl\<close>) or the assistant message is built (\<open>Inr\<close>).
\<close>

definition aiResponse :: "json_choice list \<Rightarrow> string" where
  "aiResponse choices =
     (let c = (case choices of
                 [] \<Rightarrow> None
               | JsonChoice None # _ \<Rightarrow> None
               | JsonChoice (Some (JsonMessage c)) # _ \<Rightarrow> c)
      in if truthy c then the c else ''I'm sorry, I couldn't process that request.'')"

definition completion :: "fetch_result \<Rightarrow> int \<Rightarrow> int \<Rightarrow> js_throw + message" where
  "completion res t_id t_ts =
     (case res of
        Rejected e \<Rightarrow> Inl e
      | Response status b \<Rightarrow>
          if \<not> ok status then
            (if status = 401 then
               Inl (Error ''Authentication failed. Please check your API key.'')
             else if status = 429 then
               Inl (Error ''Rate limit exceeded. Please try again later.'')
             else Inl (Error ''Service temporarily unavailable. Please try again.''))
          else
            (case b of
               Throws e \<Rightarrow> Inl e
             | Choices choices \<Rightarrow>
                 Inr \<lparr>id_msg = toString (t_id + 1), content = aiResponse choices,
                      isUser = False, timestamp = t_ts\<rparr>))"

text \<open>The \<open>catch\<close> and \<open>finally\<close> blocks applied to the outcome of the \<open>try\<close> block.\<close>

definition sendMessage_response :: "app_state \<Rightarrow> fetch_result \<Rightarrow> int \<Rightarrow> int \<Rightarrow> app_state" where
  "sendMessage_response st res t_id t_ts =
     (case completion res t_id t_ts of
        Inr aiMessage \<Rightarrow> st\<lparr>messages := messages st @ [aiMessage]\<rparr>
      | Inl thrown \<Rightarrow>
          st\<lparr>notices := notices st @
                [Toast ''Error''
                   (case thrown of
                      Error m \<Rightarrow> m
                    | NonError \<Rightarrow> ''Failed to send message. Please try again.'')
                   ''destructive'']\<rparr>)
     \<lparr>isLoading := False\<rparr>"

text \<open>
  The readings of the clock during one call of \<open>handleSubmit\<close>: \<open>Date.now()\<close> in
  \<open>validateInput\<close>, \<open>Date.now()\<close> and \<open>new Date()\<close> for the user message, and
  \<open>Date.now()\<close> for \<open>setLastMessageTime\<close>.
\<close>

record clock =
  now_validate :: int
  now_id :: int
  now_ts :: int
  now_accept :: int

text \<open>
  \<open>handleSubmit\<close> up to the point where it returns; a request that it has issued is
  still outstanding then.
\<close>

definition handleSubmit :: "app_state \<Rightarrow> clock \<Rightarrow> app_state" where
  "handleSubmit st clk =
     (let sanitizedInput = sanitizeInput (input st);
          v = validateInput sanitizedInput (lastMessageTime st) (now_validate clk)
      in if \<not> isValid v then
           (if truthy (error v) then st\<lparr>notices := notices st @ [Alert (the (error v))]\<rparr>
            else st)
         else if \<not> isLoading st then
           (sendMessage_request st sanitizedInput (now_id clk) (now_ts clk))
             \<lparr>input := [], lastMessageTime := now_accept clk\<rparr>
         else st)"

text \<open>
  Whether \<open>handleSubmit\<close> issues a completion request, and \<open>submit\<close>: the call
  followed to its end, that is, to the settling of the request it has issued (with
  result \<open>res\<close>), if any.
\<close>

definition issuesRequest :: "app_state \<Rightarrow> clock \<Rightarrow> bool" where
  "issuesRequest st clk =
     (isValid (validateInput (sanitizeInput (input st)) (lastMessageTime st) (now_validate clk))
      \<and> \<not> isLoading st \<and> truthy (apiKey st))"

definition submit :: "app_state \<Rightarrow> clock \<Rightarrow> fetch_result \<Rightarrow> int \<Rightarrow> int \<Rightarrow> app_state" where
  "submit st clk res t_id t_ts =
     (if issuesRequest st clk then sendMessage_response (handleSubmit st clk) res t_id t_ts
      else handleSubmit st clk)"

section \<open>Sequences of operations\<close>

text \<open>
  The operations on the chat screen, and the two that lead to the key screen and back:
  \<open>ManageKey\<close> is the click on the button \<open>API Key\<close>, which is never disabled, and
  \<open>KeySet\<close> the callback \<open>onApiKeySet\<close> of \<open>ApiKeySetup\<close>.
\<close>

datatype event =
    Type string
  | Submit clock
  | Settle fetch_result int int
  | NewChat int
  | ManageKey
  | KeySet string

fun step :: "app_state \<Rightarrow> event \<Rightarrow> app_state" where
  "step st (Type v) = handleInputChange st v"
| "step st (Submit clk) = handleSubmit st clk"
| "step st (Settle res t_id t_ts) = sendMessage_response st res t_id t_ts"
| "step st (NewChat t) = handleNewChat st t"
| "step st ManageKey = unmountInput (handleManageApiKey st)"
| "step st (KeySet newApiKey) = handleApiKeySet st newApiKey"

definition run :: "app_state \<Rightarrow> event list \<Rightarrow> app_state" where
  "run st evs = foldl step st evs"


section \<open>The credential holder: \<open>ApiKeySetup\<close>\<close>

text \<open>
  The state of \<open>ApiKeySetup\<close>; its field \<open>apiKey\<close> is named \<open>apiKey_setup\<close> here.
  \<open>setup_outcome\<close> records what one call of \<open>validateAndSetApiKey\<close> has done: the
  state it leaves, the alerts shown, the URLs fetched, the pairs written to
  \<open>localStorage\<close> and the argument passed to \<open>onApiKeySet\<close>, if it was called.
\<close>

record setup_state =
  apiKey_setup :: string
  showApiKey :: bool
  isValidating :: bool

record setup_outcome =
  state_after :: setup_state
  alerts :: "string list"
  fetched :: "string list"
  written :: "(string \<times> string) list"
  onApiKeySet :: "string option"

text \<open>
  \<open>btoa\<close> is the browser's encoding function and \<open>res\<close> the way the request to
  the model-listing endpoint ends.
\<close>

definition validateAndSetApiKey ::
  "(string \<Rightarrow> string) \<Rightarrow> setup_state \<Rightarrow> fetch_result \<Rightarrow> setup_outcome" where
  "validateAndSetApiKey btoa st res =
     (let quiet = \<lparr>state_after = st, alerts = [], fetched = [], written = [],
                    onApiKeySet = None\<rparr>
      in if trim (apiKey_setup st) = [] then quiet
         else if \<not> startsWith (apiKey_setup st) ''sk-or-v1-'' then
           quiet\<lparr>alerts :=
             [''Invalid API key format. OpenRouter API keys should start with ''
                @ [CHR 0x27] @ ''sk-or-v1-'' @ [CHR 0x27]]\<rparr>
         else
           let sent = quiet\<lparr>state_after := st\<lparr>isValidating := False\<rparr>,
                            fetched := [''https://openrouter.ai/api/v1/models'']\<rparr>
           in (case res of
                 Rejected e \<Rightarrow>
                   sent\<lparr>alerts :=
                     [''Failed to validate API key. Please check your connection and try again.'']\<rparr>
               | Response status b \<Rightarrow>
                   if ok status then
                     sent\<lparr>written := [(''openrouter_api_key'', btoa (apiKey_setup st))],
                          onApiKeySet := Some (apiKey_setup st)\<rparr>
                   else
                     sent\<lparr>alerts :=
                       [''Invalid API key. Please check your key and try again.'']\<rparr>))"

text \<open>
  The format check of \<open>validateAndSetApiKey\<close>: the two guards that come before the
  request.
\<close>

definition validateFormat :: "string \<Rightarrow> bool" where
  "validateFormat raw = (trim raw \<noteq> [] \<and> startsWith raw ''sk-or-v1-'')"


section \<open>Notions used in the properties\<close>

text \<open>
  \<open>containsMatch r s\<close>: somewhere in \<open>s\<close> the pattern \<open>r\<close> has a match that is not
  empty, so that the global replacement finds something to remove.
\<close>

fun occurs :: "regex \<Rightarrow> pos \<Rightarrow> bool" where
  "occurs r (prev, []) = False"
| "occurs r (prev, c # cs) =
     (case matches r (prev, c # cs) of
        [] \<Rightarrow> occurs r (Some c, cs)
      | q # _ \<Rightarrow> length (snd q) < length (c # cs) \<or> occurs r (Some c, cs))"

definition containsMatch :: "regex \<Rightarrow> string \<Rightarrow> bool" where
  "containsMatch r s = occurs r (None, s)"

text \<open>A completion request fails: the network fails, or the status is not 2xx.\<close>

definition failed :: "fetch_result \<Rightarrow> bool" where
  "failed res = (case res of Rejected e \<Rightarrow> True | Response status b \<Rightarrow> \<not> ok status)"

text \<open>
  The operations that are neither a submission nor a visit to the key screen: between
  them \<open>SecureChatInput\<close> stays mounted.
\<close>

fun staysOnChat :: "event \<Rightarrow> bool" where
  "staysOnChat (Type v) = True"
| "staysOnChat (Submit clk) = False"
| "staysOnChat (Settle res t_id t_ts) = True"
| "staysOnChat (NewChat t) = True"
| "staysOnChat ManageKey = False"
| "staysOnChat (KeySet newApiKey) = False"


section \<open>Properties of the sanitizer\<close>

text \<open>
  A global replacement never lengthens the text; it shortens it when the pattern occurs
  and leaves it alone when it does not.
\<close>

lemma replaceAll_length_le: "length (replaceAll r p) \<le> length (snd p)"
proof (induction r p rule: replaceAll.induct)
  case (1 r prev)
  show ?case by simp
next
  case (2 r prev c cs)
  show ?case
  proof (cases "matches r (prev, c # cs)")
    case Nil
    with 2(1) show ?thesis by simp
  next
    case (Cons q qs)
    show ?thesis
    proof (cases "length (snd q) < length (c # cs)")
      case True
      with 2(2)[OF Cons True] Cons show ?thesis by simp
    next
      case False
      with 2(3)[OF Cons False] Cons show ?thesis by simp
    qed
  qed
qed

lemma replaceAll_occurs_shorter: "occurs r p \<Longrightarrow> length (replaceAll r p) < length (snd p)"
proof (induction r p rule: replaceAll.induct)
  case (1 r prev)
  then show ?case by simp
next
  case (2 r prev c cs)
  show ?case
  proof (cases "matches r (prev, c # cs)")
    case Nil
    with 2(1) 2(4) show ?thesis by simp
  next
    case (Cons q qs)
    show ?thesis
    proof (cases "length (snd q) < length (c # cs)")
      case True
      have "length (replaceAll r q) \<le> length (snd q)" by (rule replaceAll_length_le)
      with True Cons show ?thesis by simp
    next
      case False
      with 2(3)[OF Cons False] 2(4) Cons show ?thesis by simp
    qed
  qed
qed

lemma replaceAll_no_occurs: "\<not> occurs r p \<Longrightarrow> replaceAll r p = snd p"
proof (induction r p rule: replaceAll.induct)
  case (1 r prev)
  then show ?case by simp
next
  case (2 r prev c cs)
  show ?case
  proof (cases "matches r (prev, c # cs)")
    case Nil
    with 2(1) 2(4) show ?thesis by simp
  next
    case (Cons q qs)
    with 2(4) have nl: "\<not> length (snd q) < length (c # cs)" and no: "\<not> occurs r (Some c, cs)"
      by simp_all
    from 2(3)[OF Cons nl no] Cons nl show ?thesis by simp
  qed
qed

lemma trim_length_le: "length (trim s) \<le> length s"
  unfolding trim_def
  by (metis length_dropWhile_le length_rev le_trans)

lemma trimEnd_hd:
  assumes "t \<noteq> []" "\<not> P (hd t)"
  shows "rev (dropWhile P (rev t)) \<noteq> [] \<and> hd (rev (dropWhile P (rev t))) = hd t"
proof -
  from assms obtain x xs where t: "t = x # xs" and nx: "\<not> P x" by (cases t) auto
  show ?thesis
  proof (cases "\<forall>y\<in>set xs. P y")
    case True
    then have "dropWhile P (rev xs @ [x]) = [x]" using nx by (simp add: dropWhile_append)
    then show ?thesis using t by simp
  next
    case False
    then have "dropWhile P (rev xs @ [x]) = dropWhile P (rev xs) @ [x]"
      by (simp add: dropWhile_append)
    then show ?thesis using t by simp
  qed
qed

lemma trim_idem: "trim (trim s) = trim s"
proof -
  define t where "t = dropWhile isWhiteSpace s"
  define u where "u = rev (dropWhile isWhiteSpace (rev t))"
  have u: "trim s = u" by (simp add: trim_def t_def u_def)
  have front: "dropWhile isWhiteSpace u = u"
  proof (cases "t = []")
    case True
    then show ?thesis by (simp add: u_def)
  next
    case False
    then have "\<not> isWhiteSpace (hd t)" unfolding t_def by (metis hd_dropWhile)
    from trimEnd_hd[of t isWhiteSpace, OF False this] have "u \<noteq> []" "hd u = hd t" by (simp_all add: u_def)
    with \<open>\<not> isWhiteSpace (hd t)\<close> show ?thesis by (cases u) auto
  qed
  have rear: "rev (dropWhile isWhiteSpace (rev u)) = u"
    by (simp add: u_def)
  show ?thesis unfolding u by (simp add: trim_def[of u] front rear)
qed


lemma sanitizeInput_trimmed: "trim (sanitizeInput s) = sanitizeInput s"
  unfolding sanitizeInput_def by (rule trim_idem)

text \<open>
  \<open>sanitizeInput\<close> makes a single pass with each of its three patterns.  A second
  application changes nothing exactly when the first result contains no script block,
  no \<open>javascript:\<close> and no event-handler attribute.
\<close>

lemma sanitize_twice_iff_clean:
  "sanitizeInput (sanitizeInput s) = sanitizeInput s \<longleftrightarrow>
     \<not> (containsMatch script_re (sanitizeInput s)
        \<or> containsMatch javascript_re (sanitizeInput s)
        \<or> containsMatch handler_re (sanitizeInput s))"
proof -
  define t where "t = sanitizeInput s"
  have tt: "trim t = t" unfolding t_def sanitizeInput_def by (rule trim_idem)
  have le: "length (replace_g r x) \<le> length x" for r x
    using replaceAll_length_le[of r "(None, x)"] by (simp add: replace_g_def)
  have lt: "containsMatch r x \<Longrightarrow> length (replace_g r x) < length x" for r x
    using replaceAll_occurs_shorter[of r "(None, x)"] by (simp add: replace_g_def containsMatch_def)
  have eq: "\<not> containsMatch r x \<Longrightarrow> replace_g r x = x" for r x
    using replaceAll_no_occurs[of r "(None, x)"] by (simp add: replace_g_def containsMatch_def)
  define a where "a = replace_g script_re t"
  define b where "b = replace_g javascript_re a"
  define c where "c = replace_g handler_re b"
  have san: "sanitizeInput t = trim c" by (simp add: sanitizeInput_def a_def b_def c_def)
  have chain: "length (trim c) \<le> length c" "length c \<le> length b" "length b \<le> length a"
      "length a \<le> length t"
    using trim_length_le le by (simp_all add: a_def b_def c_def)
  show ?thesis
  proof (cases "containsMatch script_re t \<or> containsMatch javascript_re t \<or> containsMatch handler_re t")
    case False
    then have "a = t" "b = t" "c = t" using eq by (simp_all add: a_def b_def c_def)
    with san tt False show ?thesis by (simp add: t_def)
  next
    case True
    have "length (trim c) < length t"
    proof (cases "containsMatch script_re t")
      case True
      from lt[OF this] chain show ?thesis by (simp add: a_def)
    next
      case ns: False
      then have at: "a = t" using eq by (simp add: a_def)
      show ?thesis
      proof (cases "containsMatch javascript_re t")
        case True
        from lt[OF this] chain at show ?thesis by (simp add: b_def)
      next
        case nj: False
        then have bt: "b = t" using eq at by (simp add: b_def)
        from True ns nj have "containsMatch handler_re t" by simp
        from lt[OF this] chain bt show ?thesis by (simp add: c_def)
      qed
    qed
    then have "sanitizeInput t \<noteq> t" using san by auto
    with True show ?thesis by (simp add: t_def)
  qed
qed


text \<open>
  Claim C1 at the input \<open>javajavascript:script:\<close>.  Applying \<open>sanitizeInput\<close> twice
  is required to give the same as applying it once.  Here the single pass removes the
  inner \<open>javascript:\<close> and thereby brings the outer pieces together: the first
  result is \<open>javascript:\<close>, which the function is written to remove, and the
  second result is the empty string.
\<close>

theorem sanitize_not_idempotent:
  "sanitizeInput ''javajavascript:script:'' = ''javascript:''
   \<and> sanitizeInput (sanitizeInput ''javajavascript:script:'') = []"
  by code_simp

section \<open>Evaluation at concrete states\<close>

lemma sanitizeInput_hi: "sanitizeInput ''hi'' = ''hi''"
  by code_simp

lemma sanitizeInput_empty: "sanitizeInput [] = []"
  by code_simp

lemma sanitizeInput_javascript: "sanitizeInput ''javascript:'' = []"
  by code_simp

lemma trim_hi: "trim ''hi'' = ''hi''"
  by code_simp

lemma trim_empty: "trim [] = []"
  by (simp add: trim_def)

lemma toString_MAX: "toString (int MAX_MESSAGE_LENGTH) = ''4000''"
  by (simp add: toString_def MAX_MESSAGE_LENGTH_def toDigits.simps)

lemmas eval_defs =
  handleSubmit_def handleInputChange_def initialState_def Let_def truthy_def validateInput_def
  submit_def issuesRequest_def sendMessage_request_def sendMessage_response_def completion_def
  handleNewChat_def handleManageApiKey_def handleApiKeySet_def unmountInput_def
  MAX_MESSAGE_LENGTH_def RATE_LIMIT_DELAY_def ok_def failed_def
  sanitizeInput_hi sanitizeInput_empty sanitizeInput_javascript trim_hi trim_empty
  toString_def toDigits.simps
  aiResponse_def

section \<open>Properties of the input guard\<close>

text \<open>
  Sanitized text is already trimmed, so the first check of \<open>validateInput\<close> asks
  whether it is empty.
\<close>

lemma validateInput_sanitized:
  "validateInput (sanitizeInput raw) lastTime now =
     (if sanitizeInput raw = [] then
        \<lparr>isValid = False, error = Some ''Message cannot be empty''\<rparr>
      else if length (sanitizeInput raw) > MAX_MESSAGE_LENGTH then
        \<lparr>isValid = False, error = Some ''Message too long (max 4000 characters)''\<rparr>
      else if now - lastTime < RATE_LIMIT_DELAY then
        \<lparr>isValid = False, error = Some ''Please wait before sending another message''\<rparr>
      else \<lparr>isValid = True, error = None\<rparr>)"
  by (simp add: validateInput_def sanitizeInput_trimmed toString_MAX)

lemma handleSubmit_invalid:
  assumes "\<not> isValid (validateInput (sanitizeInput (input st)) (lastMessageTime st)
                        (now_validate clk))"
  shows "handleSubmit st clk =
           st\<lparr>notices := notices st @
             [Alert (if sanitizeInput (input st) = [] then ''Message cannot be empty''
                     else if length (sanitizeInput (input st)) > MAX_MESSAGE_LENGTH
                       then ''Message too long (max 4000 characters)''
                     else ''Please wait before sending another message'')]\<rparr>"
  using assms
  by (auto simp: handleSubmit_def Let_def validateInput_sanitized truthy_def split: if_splits)

text \<open>
  Claim C7.  When the validation of the sanitized input fails, \<open>handleSubmit\<close> changes
  nothing but the notices, to which it adds exactly one alert.  Its reason is fixed by
  the order of the checks: the text is empty (after trimming); otherwise it is longer
  than \<open>MAX_MESSAGE_LENGTH\<close>; otherwise less than \<open>RATE_LIMIT_DELAY\<close> has passed since
  the last accepted submission.  One of the three conditions holds, and the reason is
  the one that \<open>validateInput\<close> returns.
\<close>

theorem rejection_reason_in_order:
  assumes "\<not> isValid (validateInput (sanitizeInput (input st)) (lastMessageTime st)
                        (now_validate clk))"
  shows "handleSubmit st clk =
           st\<lparr>notices := notices st @
             [Alert (if sanitizeInput (input st) = [] then ''Message cannot be empty''
                     else if length (sanitizeInput (input st)) > MAX_MESSAGE_LENGTH
                       then ''Message too long (max 4000 characters)''
                     else ''Please wait before sending another message'')]\<rparr>
         \<and> (sanitizeInput (input st) = []
              \<or> length (sanitizeInput (input st)) > MAX_MESSAGE_LENGTH
              \<or> now_validate clk - lastMessageTime st < RATE_LIMIT_DELAY)
         \<and> error (validateInput (sanitizeInput (input st)) (lastMessageTime st)
                    (now_validate clk))
             = Some (if trim (sanitizeInput (input st)) = [] then ''Message cannot be empty''
                     else if length (sanitizeInput (input st)) > MAX_MESSAGE_LENGTH
                       then ''Message too long (max 4000 characters)''
                     else ''Please wait before sending another message'')"
proof -
  have "handleSubmit st clk =
           st\<lparr>notices := notices st @
             [Alert (if sanitizeInput (input st) = [] then ''Message cannot be empty''
                     else if length (sanitizeInput (input st)) > MAX_MESSAGE_LENGTH
                       then ''Message too long (max 4000 characters)''
                     else ''Please wait before sending another message'')]\<rparr>"
    using assms by (rule handleSubmit_invalid)
  moreover have "sanitizeInput (input st) = []
              \<or> length (sanitizeInput (input st)) > MAX_MESSAGE_LENGTH
              \<or> now_validate clk - lastMessageTime st < RATE_LIMIT_DELAY"
    using assms by (auto simp: validateInput_sanitized split: if_splits)
  moreover have "error (validateInput (sanitizeInput (input st)) (lastMessageTime st)
                    (now_validate clk))
             = Some (if trim (sanitizeInput (input st)) = [] then ''Message cannot be empty''
                     else if length (sanitizeInput (input st)) > MAX_MESSAGE_LENGTH
                       then ''Message too long (max 4000 characters)''
                     else ''Please wait before sending another message'')"
    using assms by (auto simp: validateInput_sanitized sanitizeInput_trimmed split: if_splits)
  ultimately show ?thesis by blast
qed

text \<open>
  An instance: right after an accepted submission the input is empty and the last
  acceptance is 98 ms old.  Both the first and the third check would fail; the alert
  names the first.
\<close>

theorem rejection_reason_in_order_witness:
  "handleSubmit
     (handleSubmit (handleInputChange (initialState 0 (Some ''sk-or-v1-abc'')) ''hi'')
        \<lparr>now_validate = 5000, now_id = 5001, now_ts = 5001, now_accept = 5002\<rparr>)
     \<lparr>now_validate = 5100, now_id = 5101, now_ts = 5101, now_accept = 5102\<rparr>
   = (handleSubmit (handleInputChange (initialState 0 (Some ''sk-or-v1-abc'')) ''hi'')
        \<lparr>now_validate = 5000, now_id = 5001, now_ts = 5001, now_accept = 5002\<rparr>)
       \<lparr>notices := [Alert ''Message cannot be empty'']\<rparr>"
proof -
  let ?st = "handleSubmit (handleInputChange (initialState 0 (Some ''sk-or-v1-abc'')) ''hi'')
        \<lparr>now_validate = 5000, now_id = 5001, now_ts = 5001, now_accept = 5002\<rparr>"
  let ?clk = "\<lparr>now_validate = 5100, now_id = 5101, now_ts = 5101, now_accept = 5102\<rparr>"
  have st: "input ?st = []" "lastMessageTime ?st = 5002" "notices ?st = []"
    by (simp_all add: eval_defs)
  have invalid: "\<not> isValid (validateInput (sanitizeInput (input ?st)) (lastMessageTime ?st)
                             (now_validate ?clk))"
    by (simp add: st validateInput_def sanitizeInput_empty trim_empty)
  from rejection_reason_in_order [OF invalid] show ?thesis
    by (simp add: st sanitizeInput_empty)
qed

text \<open>
  While \<open>SecureChatInput\<close> stays mounted, only \<open>handleSubmit\<close> writes
  \<open>lastMessageTime\<close>, and an accepted submission sets it to the reading of the clock
  taken at acceptance.
\<close>

lemma step_lastMessageTime:
  "staysOnChat e \<Longrightarrow> lastMessageTime (step st e) = lastMessageTime st"
  by (cases e)
     (auto simp: handleInputChange_def sendMessage_response_def handleNewChat_def
           split: sum.splits)

lemma run_lastMessageTime:
  "\<forall>e\<in>set evs. staysOnChat e \<Longrightarrow> lastMessageTime (run st evs) = lastMessageTime st"
  unfolding run_def
  by (induction evs arbitrary: st) (simp_all add: step_lastMessageTime)

lemma handleSubmit_accept_time:
  assumes "isValid (validateInput (sanitizeInput (input st)) (lastMessageTime st)
                      (now_validate clk))"
    and "\<not> isLoading st"
  shows "lastMessageTime (handleSubmit st clk) = now_accept clk"
  using assms by (simp add: handleSubmit_def Let_def)

text \<open>
  Claim C6, as the code has it.  A first call of \<open>handleSubmit\<close> is accepted: its
  text passes the validation and no request is pending.  Then other things may happen
  on the chat screen (typing, the settling of the request, a new chat), but no further
  submission and no visit to the key screen, so that the input component stays
  mounted; \<open>st2\<close> is the state reached.  A second call whose text is, after
  sanitizing, not empty and within the length limit, made less than
  \<open>RATE_LIMIT_DELAY\<close> (1000 ms) after the acceptance of the first, adds the alert
  with the rate-limit reason and changes nothing else; in particular the conversation
  keeps its length.
\<close>

theorem second_submit_rate_limited:
  assumes accepted:
      "isValid (validateInput (sanitizeInput (input st)) (lastMessageTime st)
                  (now_validate clk1))"
      "\<not> isLoading st"
    and between: "\<forall>e\<in>set evs. staysOnChat e"
    and st2: "st2 = run (handleSubmit st clk1) evs"
    and legal: "sanitizeInput (input st2) \<noteq> []"
      "length (sanitizeInput (input st2)) \<le> MAX_MESSAGE_LENGTH"
    and soon: "now_validate clk2 - now_accept clk1 < RATE_LIMIT_DELAY"
  shows "submit st2 clk2 res t_id t_ts =
           st2\<lparr>notices := notices st2 @ [Alert ''Please wait before sending another message'']\<rparr>
         \<and> length (messages (submit st2 clk2 res t_id t_ts)) = length (messages st2)"
proof -
  have last_time: "lastMessageTime st2 = now_accept clk1"
    using run_lastMessageTime[OF between] handleSubmit_accept_time[OF accepted] st2 by simp
  have invalid: "\<not> isValid (validateInput (sanitizeInput (input st2)) (lastMessageTime st2)
                             (now_validate clk2))"
    using legal soon last_time by (simp add: validateInput_sanitized)
  then have "\<not> issuesRequest st2 clk2" by (simp add: issuesRequest_def)
  then have "submit st2 clk2 res t_id t_ts = handleSubmit st2 clk2" by (simp add: submit_def)
  also have "\<dots> = st2\<lparr>notices := notices st2 @
                        [Alert ''Please wait before sending another message'']\<rparr>"
    using handleSubmit_invalid[OF invalid] legal by simp
  finally show ?thesis by simp
qed

text \<open>
  An instance: \<open>hi\<close> is accepted at 5002, the request settles, \<open>hi\<close> is typed again and
  submitted at 5600.
\<close>

theorem second_submit_rate_limited_witness:
  "length (messages (submit
      (run (handleSubmit (handleInputChange (initialState 0 (Some ''sk-or-v1-abc'')) ''hi'')
              \<lparr>now_validate = 5000, now_id = 5001, now_ts = 5001, now_accept = 5002\<rparr>)
         [Settle (Response 200 (Choices [])) 5300 5300, Type ''hi''])
      \<lparr>now_validate = 5600, now_id = 5601, now_ts = 5601, now_accept = 5602\<rparr>
      (Rejected NonError) 5900 5900))
   = length (messages
      (run (handleSubmit (handleInputChange (initialState 0 (Some ''sk-or-v1-abc'')) ''hi'')
              \<lparr>now_validate = 5000, now_id = 5001, now_ts = 5001, now_accept = 5002\<rparr>)
         [Settle (Response 200 (Choices [])) 5300 5300, Type ''hi'']))"
proof -
  let ?st = "handleInputChange (initialState 0 (Some ''sk-or-v1-abc'')) ''hi''"
  let ?clk1 = "\<lparr>now_validate = 5000, now_id = 5001, now_ts = 5001, now_accept = 5002\<rparr>"
  let ?evs = "[Settle (Response 200 (Choices [])) 5300 5300, Type ''hi'']"
  let ?clk2 = "\<lparr>now_validate = 5600, now_id = 5601, now_ts = 5601, now_accept = 5602\<rparr>"
  have valid: "isValid (validateInput (sanitizeInput (input ?st)) (lastMessageTime ?st)
                          (now_validate ?clk1))"
    by (simp add: eval_defs)
  have idle: "\<not> isLoading ?st"
    by (simp add: eval_defs)
  have between: "\<forall>e\<in>set ?evs. staysOnChat e"
    by simp
  have inp: "input (run (handleSubmit ?st ?clk1) ?evs) = ''hi''"
    by (simp add: run_def eval_defs)
  have nonempty: "sanitizeInput (input (run (handleSubmit ?st ?clk1) ?evs)) \<noteq> []"
    by (simp add: inp sanitizeInput_hi)
  have short: "length (sanitizeInput (input (run (handleSubmit ?st ?clk1) ?evs)))
                 \<le> MAX_MESSAGE_LENGTH"
    by (simp add: inp sanitizeInput_hi MAX_MESSAGE_LENGTH_def)
  have soon: "now_validate ?clk2 - now_accept ?clk1 < RATE_LIMIT_DELAY"
    by (simp add: RATE_LIMIT_DELAY_def)
  from second_submit_rate_limited [OF valid idle between refl nonempty short soon]
  show ?thesis by blast
qed

text \<open>
  Claim C6 as stated fails in two ways.  First: \<open>hi\<close> is accepted at 5002 and its
  request settles; the key screen is opened and left again, which mounts a fresh input
  component; \<open>hi\<close> is typed and submitted at 5900, less than 1000 ms after the first
  acceptance.  The second call is accepted: no alert is shown and the conversation
  grows by the user message.  Second: without any visit to the key screen, the text
  \<open>javascript:\<close> submitted at 5600 is not empty, but it is sanitized to the empty
  string and rejected with the reason for empty messages, not the rate-limit reason.
\<close>

theorem second_submit_not_rate_limited:
  "notices (handleSubmit
      (run (initialState 0 (Some ''sk-or-v1-abc''))
         [Type ''hi'',
          Submit \<lparr>now_validate = 5000, now_id = 5001, now_ts = 5001, now_accept = 5002\<rparr>,
          Settle (Response 200 (Choices [])) 5200 5200,
          ManageKey, KeySet ''sk-or-v1-abc'', Type ''hi''])
      \<lparr>now_validate = 5900, now_id = 5901, now_ts = 5901, now_accept = 5902\<rparr>) = []
   \<and> length (messages (handleSubmit
      (run (initialState 0 (Some ''sk-or-v1-abc''))
         [Type ''hi'',
          Submit \<lparr>now_validate = 5000, now_id = 5001, now_ts = 5001, now_accept = 5002\<rparr>,
          Settle (Response 200 (Choices [])) 5200 5200,
          ManageKey, KeySet ''sk-or-v1-abc'', Type ''hi''])
      \<lparr>now_validate = 5900, now_id = 5901, now_ts = 5901, now_accept = 5902\<rparr>))
     = Suc (length (messages
      (run (initialState 0 (Some ''sk-or-v1-abc''))
         [Type ''hi'',
          Submit \<lparr>now_validate = 5000, now_id = 5001, now_ts = 5001, now_accept = 5002\<rparr>,
          Settle (Response 200 (Choices [])) 5200 5200,
          ManageKey, KeySet ''sk-or-v1-abc'', Type ''hi''])))
   \<and> notices (handleSubmit
      (run (initialState 0 (Some ''sk-or-v1-abc''))
         [Type ''hi'',
          Submit \<lparr>now_validate = 5000, now_id = 5001, now_ts = 5001, now_accept = 5002\<rparr>,
          Settle (Response 200 (Choices [])) 5200 5200,
          Type ''javascript:''])
      \<lparr>now_validate = 5600, now_id = 5601, now_ts = 5601, now_accept = 5602\<rparr>)
     = [Alert ''Message cannot be empty'']"
  by (simp add: run_def eval_defs)


section \<open>Properties of the conversation controller\<close>

lemma sendMessage_response_isLoading:
  "isLoading (sendMessage_response st res t_id t_ts) = False"
  by (simp add: sendMessage_response_def split: sum.splits)




lemma handleSubmit_isLoading:
  "\<not> issuesRequest st clk \<Longrightarrow> isLoading (handleSubmit st clk) = isLoading st"
  by (auto simp: issuesRequest_def handleSubmit_def Let_def sendMessage_request_def)

text \<open>
  \<open>issuesRequest\<close> holds exactly when \<open>handleSubmit\<close> sends a request to the
  completion endpoint.
\<close>

lemma issuesRequest_iff:
  "issuesRequest st clk \<longleftrightarrow> length (requests (handleSubmit st clk)) = length (requests st) + 1"
  by (auto simp: issuesRequest_def handleSubmit_def Let_def sendMessage_request_def)

lemma no_request_unless_issued:
  "\<not> issuesRequest st clk \<Longrightarrow> requests (handleSubmit st clk) = requests st"
  by (auto simp: issuesRequest_def handleSubmit_def Let_def sendMessage_request_def)

lemma handleSubmit_pending_messages:
  "isLoading st \<Longrightarrow> messages (handleSubmit st clk) = messages st"
  by (simp add: handleSubmit_def Let_def)

text \<open>
  Claim C2, as the code has it.  \<open>handleNewChat\<close> replaces the message sequence with
  exactly one message, the seeded greeting, whose author is the assistant.  It does
  not touch the busy flag: \<open>isLoading\<close> is afterwards what it was before.
\<close>

theorem handleNewChat_effect:
  "messages (handleNewChat st t) = [greeting t]
   \<and> length (messages (handleNewChat st t)) = 1
   \<and> \<not> isUser (greeting t)
   \<and> isLoading (handleNewChat st t) = isLoading st"
  by (simp add: handleNewChat_def greeting_def)

theorem handleNewChat_effect_witness:
  "messages (handleNewChat (initialState 0 None) 6000) = [greeting 6000]
   \<and> isLoading (handleNewChat (initialState 0 None) 6000) = isLoading (initialState 0 None)"
  using handleNewChat_effect [of "initialState 0 None" 6000] by blast

text \<open>
  Claim C2 as stated fails: \<open>hi\<close> is submitted and its request is outstanding, so
  \<open>isLoading\<close> is set; a new chat started then leaves it set.
\<close>

theorem handleNewChat_keeps_pending:
  "isLoading (handleSubmit (handleInputChange (initialState 0 (Some ''sk-or-v1-abc'')) ''hi'')
                \<lparr>now_validate = 5000, now_id = 5001, now_ts = 5001, now_accept = 5002\<rparr>)
   \<and> isLoading (handleNewChat
        (handleSubmit (handleInputChange (initialState 0 (Some ''sk-or-v1-abc'')) ''hi'')
                \<lparr>now_validate = 5000, now_id = 5001, now_ts = 5001, now_accept = 5002\<rparr>) 6000)"
  by (simp add: eval_defs)

text \<open>
  The guard \<open>if (!isLoading)\<close> of \<open>handleSubmit\<close>: were it called while a request is
  pending, it would change neither the busy flag nor the conversation.
\<close>

lemma submit_guard:
  assumes "isLoading st"
  shows "isLoading (submit st clk res t_id t_ts)"
    and "messages (submit st clk res t_id t_ts) = messages st"
proof -
  from assms have "\<not> issuesRequest st clk" by (simp add: issuesRequest_def)
  with assms show "isLoading (submit st clk res t_id t_ts)"
    and "messages (submit st clk res t_id t_ts) = messages st"
    by (simp_all add: submit_def handleSubmit_isLoading handleSubmit_pending_messages)
qed

text \<open>
  Claim C3.  \<open>handleSubmit\<close> is called from the textarea or through the send button,
  and while \<open>isLoading\<close> holds both controls are disabled.  For every call that one
  of the two controls can make, and for every outcome (rejection by the input guard,
  missing credential, reply, HTTP error or network error), \<open>isLoading\<close> is false
  once the call has come to its end.
\<close>

theorem submit_clears_pending:
  assumes "\<not> textareaDisabled st \<or> \<not> buttonDisabled st"
  shows "\<not> isLoading (submit st clk res t_id t_ts)"
proof -
  from assms have idle: "\<not> isLoading st"
    by (auto simp: textareaDisabled_def buttonDisabled_def)
  show ?thesis
  proof (cases "issuesRequest st clk")
    case True
    then show ?thesis by (simp add: submit_def sendMessage_response_isLoading)
  next
    case False
    with idle show ?thesis by (simp add: submit_def handleSubmit_isLoading)
  qed
qed

text \<open>
  Instances: a submission that is answered with status 401, and one that the input
  guard rejects because the input is empty.
\<close>

theorem submit_clears_pending_witness:
  "\<not> isLoading (submit (handleInputChange (initialState 0 (Some ''sk-or-v1-abc'')) ''hi'')
        \<lparr>now_validate = 5000, now_id = 5001, now_ts = 5001, now_accept = 5002\<rparr>
        (Response 401 (Choices [])) 6000 6000)
   \<and> \<not> isLoading (submit (initialState 0 (Some ''sk-or-v1-abc''))
        \<lparr>now_validate = 5000, now_id = 5001, now_ts = 5001, now_accept = 5002\<rparr>
        (Rejected NonError) 6000 6000)"
proof -
  have typed: "\<not> textareaDisabled (handleInputChange (initialState 0 (Some ''sk-or-v1-abc'')) ''hi'')
      \<or> \<not> buttonDisabled (handleInputChange (initialState 0 (Some ''sk-or-v1-abc'')) ''hi'')"
    by (simp add: textareaDisabled_def buttonDisabled_def eval_defs)
  have empty: "\<not> textareaDisabled (initialState 0 (Some ''sk-or-v1-abc''))
      \<or> \<not> buttonDisabled (initialState 0 (Some ''sk-or-v1-abc''))"
    by (simp add: textareaDisabled_def buttonDisabled_def eval_defs)
  from submit_clears_pending [OF typed] submit_clears_pending [OF empty]
  show ?thesis by blast
qed

text \<open>
  A response whose status is not 2xx is reported with one of three fixed texts, chosen
  by the status, and adds no message.
\<close>

lemma http_failure_notice:
  assumes "\<not> ok status"
  shows "sendMessage_response st (Response status b) t_id t_ts =
           st\<lparr>notices := notices st @
                 [Toast ''Error''
                    (if status = 401 then ''Authentication failed. Please check your API key.''
                     else if status = 429 then ''Rate limit exceeded. Please try again later.''
                     else ''Service temporarily unavailable. Please try again.'')
                    ''destructive''],
               isLoading := False\<rparr>"
  using assms by (simp add: sendMessage_response_def completion_def)

text \<open>
  Claim C4 at a network error.  \<open>fetch\<close> rejects with an \<open>Error\<close> whose message is
  \<open>Failed to fetch\<close>.  No message is added, but the notice does not carry the text of
  the third category, \<open>Service temporarily unavailable. Please try again.\<close>: the
  \<open>catch\<close> block shows \<open>error.message\<close>, here the message of the thrown error.
\<close>

theorem network_error_notice:
  "failed (Rejected (Error ''Failed to fetch''))
   \<and> notices (sendMessage_response
        (handleSubmit (handleInputChange (initialState 0 (Some ''sk-or-v1-abc'')) ''hi'')
                \<lparr>now_validate = 5000, now_id = 5001, now_ts = 5001, now_accept = 5002\<rparr>)
        (Rejected (Error ''Failed to fetch'')) 6000 6000)
     = [Toast ''Error'' ''Failed to fetch'' ''destructive'']
   \<and> messages (sendMessage_response
        (handleSubmit (handleInputChange (initialState 0 (Some ''sk-or-v1-abc'')) ''hi'')
                \<lparr>now_validate = 5000, now_id = 5001, now_ts = 5001, now_accept = 5002\<rparr>)
        (Rejected (Error ''Failed to fetch'')) 6000 6000)
     = [greeting 0, \<lparr>id_msg = ''5001'', content = ''hi'', isUser = True, timestamp = 5001\<rparr>]"
  by (simp add: eval_defs)


text \<open>
  What \<open>data.choices[0]?.message?.content || "..."\<close> yields: the content of the
  first choice when there is one and it is not empty, the placeholder otherwise.
\<close>

lemma aiResponse_first:
  "aiResponse (JsonChoice (Some (JsonMessage (Some reply))) # rest) =
     (if reply = [] then ''I'm sorry, I couldn't process that request.'' else reply)"
  by (simp add: aiResponse_def truthy_def)

lemma aiResponse_absent:
  "aiResponse [] = ''I'm sorry, I couldn't process that request.''"
  "aiResponse (JsonChoice None # rest) = ''I'm sorry, I couldn't process that request.''"
  "aiResponse (JsonChoice (Some (JsonMessage None)) # rest)
     = ''I'm sorry, I couldn't process that request.''"
  by (simp_all add: aiResponse_def truthy_def)

lemma ok_200: "ok 200"
  by (simp add: ok_def)

lemma sendMessage_response_ok:
  "ok status \<Longrightarrow>
   sendMessage_response st (Response status (Choices choices)) t_id t_ts =
     st\<lparr>messages := messages st @
            [\<lparr>id_msg = toString (t_id + 1), content = aiResponse choices, isUser = False,
              timestamp = t_ts\<rparr>],
         isLoading := False\<rparr>"
  by (simp add: sendMessage_response_def completion_def)

text \<open>
  Claim C5, as the code has it.  On a response with status 200 whose first choice has
  a message content that is present and not empty, exactly one message is appended:
  an assistant message whose text is that content.  When there is no first choice, or
  it has no message, or the message has no content, or the content is the empty
  string, the appended assistant message carries the fixed placeholder instead.
\<close>

theorem success_appends_reply:
  "(reply \<noteq> [] \<longrightarrow>
      messages (sendMessage_response st
         (Response 200 (Choices (JsonChoice (Some (JsonMessage (Some reply))) # rest))) t_id t_ts)
      = messages st @ [\<lparr>id_msg = toString (t_id + 1), content = reply, isUser = False,
                         timestamp = t_ts\<rparr>])
   \<and> (choices = [] \<or> choices = JsonChoice None # rest
        \<or> choices = JsonChoice (Some (JsonMessage None)) # rest
        \<or> choices = JsonChoice (Some (JsonMessage (Some []))) # rest \<longrightarrow>
      messages (sendMessage_response st (Response 200 (Choices choices)) t_id t_ts)
      = messages st @ [\<lparr>id_msg = toString (t_id + 1),
                         content = ''I'm sorry, I couldn't process that request.'',
                         isUser = False, timestamp = t_ts\<rparr>])"
  by (auto simp: sendMessage_response_ok ok_200 aiResponse_first aiResponse_absent)

theorem success_appends_reply_witness:
  "messages (sendMessage_response
        \<lparr>messages = [greeting 0], isLoading = True, apiKey = Some ''sk-or-v1-abc'',
          showApiKeySetup = False, input = [], lastMessageTime = 5002, notices = [],
          requests = []\<rparr>
        (Response 200 (Choices [JsonChoice (Some (JsonMessage (Some ''Hi there'')))])) 6000 6001)
     = [greeting 0,
        \<lparr>id_msg = toString 6001, content = ''Hi there'', isUser = False, timestamp = 6001\<rparr>]"
  using success_appends_reply [of "''Hi there''"
      "\<lparr>messages = [greeting 0], isLoading = True, apiKey = Some ''sk-or-v1-abc'',
          showApiKeySetup = False, input = [], lastMessageTime = 5002, notices = [],
          requests = []\<rparr>" "[]" 6000 6001]
  by simp

text \<open>
  Claim C5 as stated fails: the first choice has a content, the empty string, and the
  appended text is not that content but the placeholder.
\<close>

theorem empty_reply_replaced:
  "messages (sendMessage_response
        \<lparr>messages = [greeting 0], isLoading = True, apiKey = Some ''sk-or-v1-abc'',
          showApiKeySetup = False, input = [], lastMessageTime = 5002, notices = [],
          requests = []\<rparr>
        (Response 200 (Choices [JsonChoice (Some (JsonMessage (Some [])))])) 6000 6001)
   = [greeting 0,
      \<lparr>id_msg = ''6001'', content = ''I'm sorry, I couldn't process that request.'',
        isUser = False, timestamp = 6001\<rparr>]"
  by (simp add: eval_defs)



section \<open>The conversation is never empty\<close>

lemma step_messages:
  "(\<exists>ms. messages (step st e) = messages st @ ms) \<or> (\<exists>t. messages (step st e) = [greeting t])"
proof (cases e)
  case (Type v)
  then show ?thesis by (simp add: handleInputChange_def)
next
  case (Submit clk)
  then show ?thesis
    by (simp add: handleSubmit_def Let_def sendMessage_request_def)
next
  case (Settle res t_id t_ts)
  then show ?thesis
    by (simp add: sendMessage_response_def split: sum.splits)
next
  case (NewChat t)
  then have "messages (step st e) = [greeting t]" by (simp add: handleNewChat_def)
  then show ?thesis by blast
next
  case ManageKey
  then show ?thesis by (simp add: handleManageApiKey_def unmountInput_def)
next
  case (KeySet newApiKey)
  then show ?thesis by (simp add: handleApiKeySet_def)
qed

lemma step_nonempty: "messages st \<noteq> [] \<Longrightarrow> messages (step st e) \<noteq> []"
  using step_messages[of st e] by (auto simp: greeting_def)

lemma run_nonempty: "messages st \<noteq> [] \<Longrightarrow> messages (run st evs) \<noteq> []"
  unfolding run_def
  by (induction evs arbitrary: st) (simp_all add: step_nonempty)

lemma initialState_messages: "messages (initialState t storedKey) = [greeting t]"
  by (simp add: initialState_def Let_def)

text \<open>
  Claim C8.  After initialization, with or without a stored key, and after any sequence
  of operations (typing, submitting, the settling of a request with any result, starting
  a new chat, opening and leaving the key screen) the message sequence is not empty.  Every single operation either appends
  messages to the sequence (possibly none) or replaces it with the seeded greeting alone.
\<close>

theorem conversation_never_empty:
  "messages (run (initialState t storedKey) evs) \<noteq> []
   \<and> (\<forall>st e. (\<exists>ms. messages (step st e) = messages st @ ms)
              \<or> (\<exists>t'. messages (step st e) = [greeting t']))"
  using run_nonempty[of "initialState t storedKey" evs] step_messages
  by (simp add: initialState_messages)

theorem conversation_never_empty_witness:
  "messages (run (initialState 0 (Some ''sk-or-v1-abc''))
      [Type ''hi'',
       Submit \<lparr>now_validate = 5000, now_id = 5001, now_ts = 5001, now_accept = 5002\<rparr>,
       NewChat 5500,
       Settle (Response 200 (Choices [])) 6000 6000]) \<noteq> []"
  using conversation_never_empty by blast

section \<open>The format check of the credential\<close>

lemma startsWith_iff: "startsWith s p \<longleftrightarrow> (\<exists>rest. s = p @ rest)"
  by (induction s p rule: startsWith.induct) auto

lemma trim_Nil_iff: "trim s = [] \<longleftrightarrow> (\<forall>c\<in>set s. isWhiteSpace c)"
proof -
  define t where "t = dropWhile isWhiteSpace s"
  have "trim s = [] \<longleftrightarrow> (\<forall>c\<in>set t. isWhiteSpace c)"
    by (simp add: trim_def t_def dropWhile_eq_Nil_conv)
  also have "\<dots> \<longleftrightarrow> t = []"
  proof
    assume all: "\<forall>c\<in>set t. isWhiteSpace c"
    show "t = []"
    proof (rule ccontr)
      assume "t \<noteq> []"
      then have "\<not> isWhiteSpace (hd t)" unfolding t_def by (metis hd_dropWhile)
      with all \<open>t \<noteq> []\<close> show False by (cases t) auto
    qed
  qed simp
  also have "\<dots> \<longleftrightarrow> (\<forall>c\<in>set s. isWhiteSpace c)"
    by (simp add: t_def dropWhile_eq_Nil_conv)
  finally show ?thesis .
qed

lemma prefix_not_blank: "startsWith raw ''sk-or-v1-'' \<Longrightarrow> trim raw \<noteq> []"
proof -
  assume "startsWith raw ''sk-or-v1-''"
  then obtain rest where "raw = ''sk-or-v1-'' @ rest" by (auto simp: startsWith_iff)
  then have "CHR ''s'' \<in> set raw" by simp
  moreover have "\<not> isWhiteSpace CHR ''s''" by (simp add: isWhiteSpace_def)
  ultimately show ?thesis by (auto simp: trim_Nil_iff)
qed

lemma validateFormat_iff: "validateFormat raw \<longleftrightarrow> startsWith raw ''sk-or-v1-''"
  using prefix_not_blank by (auto simp: validateFormat_def)

lemma fetched_iff:
  "fetched (validateAndSetApiKey btoa st res) \<noteq> [] \<longleftrightarrow> validateFormat (apiKey_setup st)"
  by (auto simp: validateAndSetApiKey_def validateFormat_def Let_def
           split: fetch_result.splits)

text \<open>
  Claim C9.  The format check accepts a string exactly when it starts with
  \<open>sk-or-v1-\<close>, that is, when it is this prefix followed by some rest.  It accepts
  \<open>sk-or-v1-abc\<close> and rejects \<open>abc123\<close>.  \<open>validateAndSetApiKey\<close> issues no request
  exactly when the check rejects the key that was entered.
\<close>

theorem validateFormat_prefix:
  "(validateFormat raw \<longleftrightarrow> (\<exists>rest. raw = ''sk-or-v1-'' @ rest))
   \<and> validateFormat ''sk-or-v1-abc''
   \<and> \<not> validateFormat ''abc123''
   \<and> (fetched (validateAndSetApiKey btoa st res) = [] \<longleftrightarrow> \<not> validateFormat (apiKey_setup st))"
proof -
  have "validateFormat raw \<longleftrightarrow> (\<exists>rest. raw = ''sk-or-v1-'' @ rest)"
    by (simp only: validateFormat_iff startsWith_iff)
  moreover have "validateFormat ''sk-or-v1-abc''"
    by (simp add: validateFormat_iff)
  moreover have "\<not> validateFormat ''abc123''"
    by (simp add: validateFormat_iff)
  moreover have "fetched (validateAndSetApiKey btoa st res) = []
      \<longleftrightarrow> \<not> validateFormat (apiKey_setup st)"
    using fetched_iff[of btoa st res] by blast
  ultimately show ?thesis by blast
qed

theorem validateFormat_prefix_witness:
  "validateFormat ''sk-or-v1-abc''
   \<and> fetched (validateAndSetApiKey (\<lambda>s. s)
        \<lparr>apiKey_setup = ''sk-or-v1-abc'', showApiKey = False, isValidating = False\<rparr>
        (Response 200 (Choices []))) \<noteq> []
   \<and> fetched (validateAndSetApiKey (\<lambda>s. s)
        \<lparr>apiKey_setup = ''abc123'', showApiKey = False, isValidating = False\<rparr>
        (Response 200 (Choices []))) = []"
  using validateFormat_prefix [of "''sk-or-v1-abc''" "\<lambda>s. s"
      "\<lparr>apiKey_setup = ''sk-or-v1-abc'', showApiKey = False, isValidating = False\<rparr>"
      "Response 200 (Choices [])"]
    validateFormat_prefix [of "''abc123''" "\<lambda>s. s"
      "\<lparr>apiKey_setup = ''abc123'', showApiKey = False, isValidating = False\<rparr>"
      "Response 200 (Choices [])"]
  by simp

end
